theory Spec2Isabelle
  imports Main "HOL-Library.Word"
begin

section \<open>Untyped resource documents\<close>

text \<open>
  A fetched object is an \<^verbatim>\<open>unstructured.Unstructured\<close>: a tree of
  \<^verbatim>\<open>map[string]interface{}\<close>, slices and scalar leaves. A Go map is
  modelled as an association list; the order of the list is the order in which a
  \<^verbatim>\<open>range\<close> loop visits the entries in the run at hand (Go leaves that order
  unspecified), and a lookup finds the entry of a key with \<open>map_of\<close>. A Go map holds
  a key once, so the lists that stand for maps have distinct keys.
\<close>

datatype val =
    VNil
  | VBool bool
  | VString string
  | VInt64 "64 word"
  | VFloat64 "64 word"
  | VMap "(string \<times> val) list"
  | VSlice "val list"

type_synonym gomap = "(string \<times> val) list"

record Unstructured =
  Object :: gomap

text \<open>\<^verbatim>\<open>m[k]\<close> on a \<^verbatim>\<open>map[string]interface{}\<close>: a missing key reads as
  the nil interface value, exactly as a key that holds nil.\<close>

definition mapindex :: "gomap \<Rightarrow> string \<Rightarrow> val" where
  "mapindex m k = (case map_of m k of None \<Rightarrow> VNil | Some v \<Rightarrow> v)"

subsection \<open>Type assertions\<close>

text \<open>
  The single-value form \<^verbatim>\<open>x.(T)\<close> panics with a
  \<^verbatim>\<open>runtime.TypeAssertionError\<close> when the dynamic type of \<open>x\<close> is not \<open>T\<close>.
  The panic value records the dynamic type found (none for a nil interface) and the
  asserted type, which is all that its message
  \<^verbatim>\<open>interface conversion: interface {} is ..., not ...\<close> prints.
\<close>

datatype panic =
    TypeAssertionError "string option" string
  | NilPointerDereference

fun dynType :: "val \<Rightarrow> string option" where
  "dynType VNil = None"
| "dynType (VBool b) = Some ''bool''"
| "dynType (VString s) = Some ''string''"
| "dynType (VInt64 i) = Some ''int64''"
| "dynType (VFloat64 f) = Some ''float64''"
| "dynType (VMap m) = Some ''map[string]interface {}''"
| "dynType (VSlice xs) = Some ''[]interface {}''"

definition assertMap :: "val \<Rightarrow> panic + gomap" where
  "assertMap v = (case v of VMap m \<Rightarrow> Inr m
                  | _ \<Rightarrow> Inl (TypeAssertionError (dynType v) ''map[string]interface {}''))"

definition assertString :: "val \<Rightarrow> panic + string" where
  "assertString v = (case v of VString s \<Rightarrow> Inr s
                     | _ \<Rightarrow> Inl (TypeAssertionError (dynType v) ''string''))"

definition assertInt64 :: "val \<Rightarrow> panic + 64 word" where
  "assertInt64 v = (case v of VInt64 i \<Rightarrow> Inr i
                    | _ \<Rightarrow> Inl (TypeAssertionError (dynType v) ''int64''))"

text \<open>A statement that panics ends the function: the rest runs only on a value.\<close>

definition orPanic :: "panic + 'a \<Rightarrow> ('a \<Rightarrow> panic + 'b) \<Rightarrow> panic + 'b" where
  "orPanic r f = (case r of Inl p \<Rightarrow> Inl p | Inr x \<Rightarrow> f x)"

subsection \<open>The label set of an object\<close>

text \<open>
  \<^verbatim>\<open>obj.GetLabels()\<close> belongs to the Kubernetes client library: it reads
  \<^verbatim>\<open>metadata.labels\<close> as a \<^verbatim>\<open>map[string]string\<close> and answers the nil map
  when the path is absent, is not a map, or holds a value that is not a string.
\<close>

fun stringMap :: "gomap \<Rightarrow> (string \<times> string) list option" where
  "stringMap [] = Some []"
| "stringMap ((k, VString s) # kvs) = map_option (\<lambda>r. (k, s) # r) (stringMap kvs)"
| "stringMap ((k, v) # kvs) = None"

definition GetLabels :: "Unstructured \<Rightarrow> (string \<times> string) list" where
  "GetLabels obj =
     (case mapindex (Object obj) ''metadata'' of
        VMap md \<Rightarrow>
          (case mapindex md ''labels'' of
             VMap ls \<Rightarrow> (case stringMap ls of Some kvs \<Rightarrow> kvs | None \<Rightarrow> [])
           | _ \<Rightarrow> [])
      | _ \<Rightarrow> [])"

section \<open>The summary record and the playground defaults\<close>

text \<open>
  \<^verbatim>\<open>utils.DBClusterInfo\<close> and the constants of package \<^verbatim>\<open>playground\<close> are
  declared outside \<^verbatim>\<open>describe.go\<close>. The record has the fields that
  \<^verbatim>\<open>describe.go\<close> assigns; the three playground constants are a parameter of the
  model, and the type of the port is left open.
\<close>

record 'port playground =
  DefaultRootUser :: string
  DefaultPort :: 'port
  DefaultEngine :: string

record 'port DBClusterInfo =
  DBNamespace :: string
  DBCluster :: string
  RootUser :: string
  DBPort :: 'port
  Labels :: string
  Version :: string
  Instances :: "64 word"
  ServerId :: "64 word"
  Secret :: string
  StartTime :: string
  Status :: string
  OnlineInstances :: "64 word"
  Topology :: string
  Engine :: string
  Storage :: int

section \<open>buildClusterInfo\<close>

text \<open>The loop \<^verbatim>\<open>for k, v := range obj.GetLabels()\<close>, appending
  \<^verbatim>\<open>fmt.Sprintf("%s:%s ", k, v)\<close> to \<^verbatim>\<open>info.Labels\<close> at every pair.\<close>

fun rangeLabels :: "(string \<times> string) list \<Rightarrow> string \<Rightarrow> string" where
  "rangeLabels [] labels = labels"
| "rangeLabels ((k, v) # kvs) labels = rangeLabels kvs (labels @ (k @ '':'' @ v @ '' ''))"

text \<open>
  The function returns nothing in Go and writes through the pointer \<open>info\<close>; the model
  returns the record written, or the panic of the first type assertion that fails, in
  the order of the source lines.
\<close>

definition buildClusterInfo ::
  "'port playground \<Rightarrow> Unstructured \<Rightarrow> 'port DBClusterInfo \<Rightarrow> panic + 'port DBClusterInfo" where
  "buildClusterInfo pg obj info =
     (let info = info\<lparr>Labels := rangeLabels (GetLabels obj) (Labels info)\<rparr> in
      orPanic (assertMap (mapindex (Object obj) ''status'')) (\<lambda>status.
      orPanic (assertMap (mapindex status ''cluster'')) (\<lambda>cluster.
      orPanic (assertMap (mapindex (Object obj) ''spec'')) (\<lambda>spec.
      orPanic (assertString (mapindex spec ''version'')) (\<lambda>version.
      orPanic (assertInt64 (mapindex spec ''instances'')) (\<lambda>instances.
      orPanic (assertInt64 (mapindex spec ''baseServerId'')) (\<lambda>serverId.
      orPanic (assertString (mapindex spec ''secretName'')) (\<lambda>secret.
      orPanic (assertString (mapindex status ''createTime'')) (\<lambda>startTime.
      orPanic (assertString (mapindex cluster ''status'')) (\<lambda>clusterStatus.
      orPanic (assertInt64 (mapindex cluster ''onlineInstances'')) (\<lambda>online.
        Inr (info\<lparr>Version := version, Instances := instances, ServerId := serverId,
                  Secret := secret, StartTime := startTime, Status := clusterStatus,
                  OnlineInstances := online,
                  Topology := (if instances = 1 then ''Standalone'' else ''Cluster''),
                  Engine := DefaultEngine pg, Storage := 2\<rparr>))))))))))))"

section \<open>Errors\<close>

text \<open>
  A Go \<^verbatim>\<open>error\<close> is nil (\<open>None\<close>) or a value with an \<^verbatim>\<open>Error()\<close> text.
  \<open>New\<close> is \<^verbatim>\<open>errors.New\<close>, and stands for any error of a library as well;
  \<open>Aggregate\<close> is what \<^verbatim>\<open>utilerrors.NewAggregate\<close> builds from a list that is
  not empty. The text of an aggregate follows the library: the texts of the errors it holds,
  nested aggregates flattened, each text once, in brackets when there are several.
\<close>

datatype error = New string | Aggregate "error list"

fun texts :: "error \<Rightarrow> string list" where
  "texts (New s) = [s]"
| "texts (Aggregate es) = concat (map texts es)"

fun joinTexts :: "string list \<Rightarrow> string" where
  "joinTexts [] = ''''"
| "joinTexts [m] = m"
| "joinTexts (m # ms) = m @ '', '' @ joinTexts ms"

fun Error :: "error \<Rightarrow> string" where
  "Error (New s) = s"
| "Error (Aggregate []) = ''''"
| "Error (Aggregate [e]) = Error e"
| "Error (Aggregate es) =
     (let seen = rev (remdups (rev (concat (map texts es))))
      in if length seen = 1 then joinTexts seen else ''['' @ joinTexts seen @ '']'')"

definition NewAggregate :: "error list \<Rightarrow> error option" where
  "NewAggregate errlist = (if errlist = [] then None else Some (Aggregate errlist))"

section \<open>The options of the command and its collaborators\<close>

datatype GroupVersionResource = GroupVersionResource string string string

record RESTMapping =
  Resource :: GroupVersionResource

text \<open>A \<^verbatim>\<open>resource.Info\<close>, with the three fields that \<^verbatim>\<open>Run\<close> reads. The
  builder sets the mapping of every object that it finds on the server.\<close>

record Info =
  info_Namespace :: string
  info_Name :: string
  info_Mapping :: RESTMapping

text \<open>What the chain of builder calls in \<^verbatim>\<open>Run\<close> passes to the
  \<^verbatim>\<open>resource.Builder\<close>, and the \<^verbatim>\<open>resource.Result\<close> that \<^verbatim>\<open>Do()\<close>
  answers: its \<^verbatim>\<open>Err()\<close> and its \<^verbatim>\<open>Infos()\<close>.\<close>

record BuilderParams =
  NamespaceParam :: string
  AllNamespacesParam :: bool
  FilenameParam :: bool
  ResourceTypeOrNameArgs :: "string list"
  RequestChunksOf :: int

record Result =
  Err :: "error option"
  Infos :: "Info list \<times> error option"

type_synonym Builder = "BuilderParams \<Rightarrow> Result"

text \<open>The dynamic client, read through
  \<^verbatim>\<open>client.Resource(gvr).Namespace(ns).Get(ctx, name, opts)\<close>.\<close>

type_synonym Client = "GroupVersionResource \<Rightarrow> string \<Rightarrow> string \<Rightarrow> error + Unstructured"

datatype ResourceDescriber = ResourceDescriber

text \<open>
  \<^verbatim>\<open>DescribeOptions\<close>. The function fields and the client are nil until
  \<^verbatim>\<open>Complete\<close> sets them. \<open>ChunkSize\<close> is \<^verbatim>\<open>DescriberSettings.ChunkSize\<close>;
  \<^verbatim>\<open>FilenameOptions\<close> stays the empty value of the constructor, and the streams are
  the trace of events below.
\<close>

record DescribeOptions =
  Namespace :: string
  Describer :: "(RESTMapping \<Rightarrow> error + ResourceDescriber) option"
  NewBuilder :: "Builder option"
  BuilderArgs :: "string list"
  EnforceNamespace :: bool
  AllNamespaces :: bool
  ChunkSize :: int
  client :: "Client option"

section \<open>Run\<close>

text \<open>What a run does to the outside, in order: a fetch (resource, namespace, name), a
  summary handed to \<^verbatim>\<open>utils.PrintClusterInfo\<close>, a line written to
  \<^verbatim>\<open>ErrOut\<close>.\<close>

datatype 'port event =
    Get GroupVersionResource string string
  | PrintClusterInfo "'port DBClusterInfo"
  | ErrOut string

datatype outcome = Return "error option" | Panic panic

text \<open>The composite literal of lines 142 to 145: the two playground constants, every
  other field at its zero value.\<close>

definition newClusterInfo :: "'port playground \<Rightarrow> 'port DBClusterInfo" where
  "newClusterInfo pg =
     \<lparr>DBNamespace = '''', DBCluster = '''',
      RootUser = DefaultRootUser pg, DBPort = DefaultPort pg,
      Labels = '''', Version = '''', Instances = 0, ServerId = 0,
      Secret = '''', StartTime = '''', Status = '''',
      OnlineInstances = 0, Topology = '''', Engine = '''', Storage = 0\<rparr>"

text \<open>
  One iteration of the loop over \<open>infos\<close> (lines 141 to 165). The state of the loop is
  \<open>allErrs\<close>, the string set \<open>errs\<close> and the trace. \<open>err\<close> is the variable of the
  function body that line 148 tests: line 159 declares an \<open>err\<close> of its own inside the
  loop body, so no iteration assigns the outer one, and every iteration sees the same
  value. An iteration goes on to the next one (\<open>Continue\<close>, also for the two
  \<^verbatim>\<open>continue\<close> statements) or leaves \<^verbatim>\<open>Run\<close> (\<open>Exit\<close>).
\<close>

datatype 'port step =
    Continue "error list" "string set" "'port event list"
  | Exit outcome "'port event list"

definition Run_body ::
  "'port playground \<Rightarrow> DescribeOptions \<Rightarrow> error option \<Rightarrow> Info \<Rightarrow>
   error list \<Rightarrow> string set \<Rightarrow> 'port event list \<Rightarrow> 'port step" where
  "Run_body pg opts err info allErrs errs tr =
     (let clusterInfo = newClusterInfo pg;
          mapping = info_Mapping info
      in case err of
           Some e \<Rightarrow>
             if Error e \<in> errs then Continue allErrs errs tr
             else Continue (allErrs @ [e]) (insert (Error e) errs) tr
         | None \<Rightarrow>
             (let clusterInfo = clusterInfo\<lparr>DBNamespace := info_Namespace info,
                                            DBCluster := info_Name info\<rparr>
              in case client opts of
                   None \<Rightarrow> Exit (Panic NilPointerDereference) tr
                 | Some c \<Rightarrow>
                     (let tr = tr @ [Get (Resource mapping) (Namespace opts) (info_Name info)]
                      in case c (Resource mapping) (Namespace opts) (info_Name info) of
                           Inl e \<Rightarrow> Exit (Return (Some e)) tr
                         | Inr obj \<Rightarrow>
                             (case buildClusterInfo pg obj clusterInfo of
                                Inl p \<Rightarrow> Exit (Panic p) tr
                              | Inr clusterInfo \<Rightarrow>
                                  Continue allErrs errs (tr @ [PrintClusterInfo clusterInfo])))))"

fun Run_loop ::
  "'port playground \<Rightarrow> DescribeOptions \<Rightarrow> error option \<Rightarrow> Info list \<Rightarrow>
   error list \<Rightarrow> string set \<Rightarrow> 'port event list \<Rightarrow> 'port step" where
  "Run_loop pg opts err [] allErrs errs tr = Continue allErrs errs tr"
| "Run_loop pg opts err (info # infos) allErrs errs tr =
     (case Run_body pg opts err info allErrs errs tr of
        Continue allErrs errs tr \<Rightarrow> Run_loop pg opts err infos allErrs errs tr
      | Exit out tr \<Rightarrow> Exit out tr)"

text \<open>The chain of builder calls of lines 120 to 127.\<close>

definition builderParams :: "DescribeOptions \<Rightarrow> BuilderParams" where
  "builderParams opts =
     \<lparr>NamespaceParam = Namespace opts,
      AllNamespacesParam = AllNamespaces opts,
      FilenameParam = EnforceNamespace opts,
      ResourceTypeOrNameArgs = BuilderArgs opts,
      RequestChunksOf = ChunkSize opts\<rparr>"

text \<open>
  \<^verbatim>\<open>Run\<close>: the trace of what it did, and how it ended. Calling the nil
  \<open>NewBuilder\<close> panics. Both early returns leave \<open>err\<close> nil where the loop starts.
\<close>

definition Run :: "'port playground \<Rightarrow> DescribeOptions \<Rightarrow> 'port event list \<times> outcome" where
  "Run pg opts =
     (case NewBuilder opts of
        None \<Rightarrow> ([], Panic NilPointerDereference)
      | Some newBuilder \<Rightarrow>
          (let r = newBuilder (builderParams opts)
           in case Err r of
                Some e \<Rightarrow> ([], Return (Some e))
              | None \<Rightarrow>
                  (case Infos r of
                     (infos, Some e) \<Rightarrow> ([], Return (Some e))
                   | (infos, None) \<Rightarrow>
                       (case Run_loop pg opts None infos [] {} [] of
                          Exit out tr \<Rightarrow> (tr, out)
                        | Continue allErrs errs tr \<Rightarrow>
                            (let tr = (if length infos = 0 \<and> length allErrs = 0
                                       then (if AllNamespaces opts
                                             then tr @ [ErrOut (''No resources found'' @ [CHR 0x0A])]
                                             else tr @ [ErrOut (''No resources found in '' @ Namespace opts
                                                                @ '' namespace.'' @ [CHR 0x0A])])
                                       else tr)
                             in (tr, Return (NewAggregate allErrs)))))))"

section \<open>Complete\<close>

text \<open>
  The factory \<open>f\<close>, given by what its calls answer:
  \<^verbatim>\<open>f.ToRawKubeConfigLoader().Namespace()\<close> (three results),
  \<^verbatim>\<open>f.ToRESTConfig()\<close>, \<^verbatim>\<open>describe.DescriberFn(f, mapping)\<close> and
  \<^verbatim>\<open>f.NewBuilder\<close>. \<^verbatim>\<open>dynamic.NewForConfig\<close> and the constant
  \<^verbatim>\<open>types.PlaygroundSourceName\<close> come from other packages and are parameters too.
\<close>

datatype Config = Config string

record Factory =
  ToRawKubeConfigLoader_Namespace :: "string \<times> bool \<times> error option"
  ToRESTConfig :: "error + Config"
  DescriberFn :: "RESTMapping \<Rightarrow> error + ResourceDescriber"
  f_NewBuilder :: Builder

record Packages =
  PlaygroundSourceName :: string
  NewForConfig :: "Config \<Rightarrow> error + Client"

text \<open>The calls that \<^verbatim>\<open>Complete\<close> makes to the configuration and to the client
  library, in order.\<close>

datatype call = CallNamespace | CallToRESTConfig | CallNewForConfig

text \<open>\<^verbatim>\<open>Complete\<close> writes through the receiver \<open>o\<close>: the model returns the calls
  made, the options as written, and the error returned (\<open>None\<close> for nil).\<close>

definition Complete ::
  "Packages \<Rightarrow> Factory \<Rightarrow> string list \<Rightarrow> DescribeOptions \<Rightarrow>
   call list \<times> DescribeOptions \<times> error option" where
  "Complete pkgs f args opts =
     (if length args = 0
      then ([], opts, Some (New ''You must specify the database cluster name to describe.''))
      else
        (case ToRawKubeConfigLoader_Namespace f of (ns, enforce, err) \<Rightarrow>
           (let opts = opts\<lparr>Namespace := ns, EnforceNamespace := enforce\<rparr>
            in if err \<noteq> None then ([CallNamespace], opts, err)
               else
                 (let opts = (if AllNamespaces opts then opts\<lparr>EnforceNamespace := False\<rparr>
                              else opts);
                      opts = opts\<lparr>BuilderArgs := PlaygroundSourceName pkgs # args\<rparr>;
                      opts = opts\<lparr>Describer := Some (\<lambda>mapping. DescriberFn f mapping)\<rparr>
                  in case ToRESTConfig f of
                       Inl err \<Rightarrow> ([CallNamespace, CallToRESTConfig], opts, None)
                     | Inr config \<Rightarrow>
                         (case NewForConfig pkgs config of
                            Inl err \<Rightarrow>
                              ([CallNamespace, CallToRESTConfig, CallNewForConfig], opts, Some err)
                          | Inr cl \<Rightarrow>
                              ([CallNamespace, CallToRESTConfig, CallNewForConfig],
                               opts\<lparr>client := Some cl, NewBuilder := Some (f_NewBuilder f)\<rparr>,
                               None))))))"

section \<open>Concrete documents and runs\<close>

text \<open>The document of the first scenario: no metadata, one instance, cluster running.\<close>

definition scenario_doc :: Unstructured where
  "scenario_doc =
     \<lparr>Object = [(''spec'', VMap [(''version'', VString ''8.0.30''), (''instances'', VInt64 1),
                               (''baseServerId'', VInt64 1), (''secretName'', VString ''s1'')]),
                 (''status'', VMap [(''createTime'', VString ''t0''),
                                 (''cluster'', VMap [(''status'', VString ''Running''),
                                                   (''onlineInstances'', VInt64 1)])])]\<rparr>"

definition scenario_playground :: "string playground" where
  "scenario_playground =
     \<lparr>DefaultRootUser = ''root'', DefaultPort = ''3306'', DefaultEngine = ''wesql''\<rparr>"

text \<open>What the scenario document projects to, for an identity \<open>ns\<close>, \<open>name\<close>.\<close>

definition scenario_summary :: "string \<Rightarrow> string \<Rightarrow> string DBClusterInfo" where
  "scenario_summary ns name =
     \<lparr>DBNamespace = ns, DBCluster = name, RootUser = ''root'', DBPort = ''3306'',
      Labels = '''', Version = ''8.0.30'', Instances = 1, ServerId = 1, Secret = ''s1'',
      StartTime = ''t0'', Status = ''Running'', OnlineInstances = 1,
      Topology = ''Standalone'', Engine = ''wesql'', Storage = 2\<rparr>"

text \<open>The scenario document without \<open>spec.version\<close>, and without \<open>spec.secretName\<close>.\<close>

definition doc_no_version :: Unstructured where
  "doc_no_version =
     \<lparr>Object = [(''spec'', VMap [(''instances'', VInt64 1),
                               (''baseServerId'', VInt64 1), (''secretName'', VString ''s1'')]),
                 (''status'', VMap [(''createTime'', VString ''t0''),
                                 (''cluster'', VMap [(''status'', VString ''Running''),
                                                   (''onlineInstances'', VInt64 1)])])]\<rparr>"

definition doc_no_secretName :: Unstructured where
  "doc_no_secretName =
     \<lparr>Object = [(''spec'', VMap [(''version'', VString ''8.0.30''), (''instances'', VInt64 1),
                               (''baseServerId'', VInt64 1)]),
                 (''status'', VMap [(''createTime'', VString ''t0''),
                                 (''cluster'', VMap [(''status'', VString ''Running''),
                                                   (''onlineInstances'', VInt64 1)])])]\<rparr>"

text \<open>The scenario document with the label set \<open>{env: prod}\<close>, and with an empty one.\<close>

definition doc_env_prod :: Unstructured where
  "doc_env_prod =
     \<lparr>Object = (''metadata'', VMap [(''name'', VString ''c1''),
                                    (''labels'', VMap [(''env'', VString ''prod'')])])
                # Object scenario_doc\<rparr>"

definition doc_empty_labels :: Unstructured where
  "doc_empty_labels =
     \<lparr>Object = (''metadata'', VMap [(''name'', VString ''c2''), (''labels'', VMap [])])
                # Object scenario_doc\<rparr>"

text \<open>Identities of one resource type, and two clusters: in the first the fetch of
  \<open>b\<close> fails and every other fetch answers the scenario document, in the second every
  fetch answers it.\<close>

definition dbclusters :: RESTMapping where
  "dbclusters =
     \<lparr>Resource = GroupVersionResource ''dbaas.infracreate.com'' ''v1alpha1'' ''dbclusters''\<rparr>"

definition identity :: "string \<Rightarrow> string \<Rightarrow> Info" where
  "identity ns name = \<lparr>info_Namespace = ns, info_Name = name, info_Mapping = dbclusters\<rparr>"

definition client_b_fails :: Client where
  "client_b_fails gvr ns name =
     (if name = ''b'' then Inl (New ''dbclusters b not found'') else Inr scenario_doc)"

definition client_any :: Client where
  "client_any gvr ns name = Inr scenario_doc"

text \<open>Completed options in namespace \<open>default\<close> whose builder locates \<open>infos\<close>.\<close>

definition options_of :: "Info list \<Rightarrow> Client \<Rightarrow> DescribeOptions" where
  "options_of infos c =
     \<lparr>Namespace = ''default'', Describer = None,
      NewBuilder = Some (\<lambda>params. \<lparr>Err = None, Infos = (infos, None)\<rparr>),
      BuilderArgs = ''dbcluster'' # map info_Name infos,
      EnforceNamespace = True, AllNamespaces = False, ChunkSize = 0,
      client = Some c\<rparr>"

definition options_all_namespaces :: DescribeOptions where
  "options_all_namespaces =
     (options_of [identity ''prod'' ''a''] client_any)
       \<lparr>AllNamespaces := True, EnforceNamespace := False\<rparr>"

text \<open>The options as the constructor leaves them, a factory whose configuration cannot
  be loaded, and the two other packages.\<close>

definition empty_options :: DescribeOptions where
  "empty_options =
     \<lparr>Namespace = '''', Describer = None, NewBuilder = None, BuilderArgs = [],
      EnforceNamespace = False, AllNamespaces = False, ChunkSize = 0, client = None\<rparr>"

definition factory_without_config :: Factory where
  "factory_without_config =
     \<lparr>ToRawKubeConfigLoader_Namespace = (''default'', False, None),
      ToRESTConfig = Inl (New ''invalid configuration: no configuration has been provided''),
      DescriberFn = (\<lambda>mapping. Inr ResourceDescriber),
      f_NewBuilder = (\<lambda>params. \<lparr>Err = None, Infos = ([], None)\<rparr>)\<rparr>"

definition scenario_packages :: Packages where
  "scenario_packages =
     \<lparr>PlaygroundSourceName = ''dbcluster'',
      NewForConfig = (\<lambda>config. Inr client_any)\<rparr>"

section \<open>Properties of buildClusterInfo\<close>

lemmas eval_defs = buildClusterInfo_def Let_def orPanic_def assertMap_def assertString_def
  assertInt64_def mapindex_def GetLabels_def newClusterInfo_def

lemma assert_simps:
  "assertMap (VMap m) = Inr m"
  "assertString (VString s) = Inr s"
  "assertInt64 (VInt64 i) = Inr i"
  by (simp_all add: assertMap_def assertString_def assertInt64_def)

lemma orPanic_simps:
  "orPanic (Inr x) f = f x"
  "orPanic (Inl p) f = Inl p"
  by (simp_all add: orPanic_def)

text \<open>What a call that returns has written: the labels appended, the identity and the
  two fields of the literal untouched, engine and storage set.\<close>

lemma buildClusterInfo_InrD:
  assumes "buildClusterInfo pg obj info = Inr s"
  shows "Labels s = rangeLabels (GetLabels obj) (Labels info)"
    and "DBNamespace s = DBNamespace info" and "DBCluster s = DBCluster info"
    and "RootUser s = RootUser info" and "DBPort s = DBPort info"
    and "Engine s = DefaultEngine pg" and "Storage s = 2"
  using assms unfolding buildClusterInfo_def Let_def orPanic_def
  by (auto split: sum.splits)

lemma rangeLabels_concat:
  "rangeLabels kvs labels = labels @ concat (map (\<lambda>(k, v). k @ '':'' @ v @ '' '') kvs)"
  by (induction kvs arbitrary: labels) auto

lemma scenario_doc_summary:
  "buildClusterInfo scenario_playground scenario_doc
     ((newClusterInfo scenario_playground)\<lparr>DBNamespace := ns, DBCluster := name\<rparr>)
   = Inr (scenario_summary ns name)"
  by (simp add: eval_defs scenario_doc_def scenario_summary_def scenario_playground_def)

lemma labelled_docs_project:
  "\<exists>s. buildClusterInfo scenario_playground doc_env_prod
          ((newClusterInfo scenario_playground)\<lparr>DBNamespace := ns, DBCluster := name\<rparr>) = Inr s"
  "\<exists>s. buildClusterInfo scenario_playground doc_empty_labels
          ((newClusterInfo scenario_playground)\<lparr>DBNamespace := ns, DBCluster := name\<rparr>) = Inr s"
  by (simp_all add: eval_defs doc_env_prod_def doc_empty_labels_def scenario_doc_def)

lemma scenario_labels:
  "GetLabels doc_env_prod = [(''env'', ''prod'')]"
  "GetLabels doc_empty_labels = []"
  "GetLabels scenario_doc = []"
  by (simp_all add: GetLabels_def mapindex_def doc_env_prod_def doc_empty_labels_def
      scenario_doc_def)

text \<open>
  Claim C1. When \<open>status\<close>, \<open>status.cluster\<close> and \<open>spec\<close> are maps and the seven
  fields are there with their exact types (string, or int64 for the three counts),
  \<open>buildClusterInfo\<close> does not panic, the summary holds the seven values as read, and
  the topology is "Standalone" when the instance count is 1 and "Cluster" otherwise.
  Nothing is asked of the label set: the projection succeeds with or without one.
\<close>

theorem buildClusterInfo_wellformed:
  assumes "mapindex (Object obj) ''status'' = VMap status"
    and "mapindex status ''cluster'' = VMap cluster"
    and "mapindex (Object obj) ''spec'' = VMap spec"
    and "mapindex spec ''version'' = VString version"
    and "mapindex spec ''instances'' = VInt64 instances"
    and "mapindex spec ''baseServerId'' = VInt64 serverId"
    and "mapindex spec ''secretName'' = VString secret"
    and "mapindex status ''createTime'' = VString startTime"
    and "mapindex cluster ''status'' = VString clusterStatus"
    and "mapindex cluster ''onlineInstances'' = VInt64 online"
  shows "\<exists>s. buildClusterInfo pg obj info = Inr s
           \<and> Version s = version \<and> Instances s = instances \<and> ServerId s = serverId
           \<and> Secret s = secret \<and> StartTime s = startTime \<and> Status s = clusterStatus
           \<and> OnlineInstances s = online
           \<and> Topology s = (if Instances s = 1 then ''Standalone'' else ''Cluster'')"
  unfolding buildClusterInfo_def Let_def
  by (simp only: assms assert_simps orPanic_simps) simp

text \<open>The scenario document of the specification projects to version 8.0.30, one
  instance, topology Standalone, status Running, one instance online.\<close>

theorem buildClusterInfo_wellformed_witness:
  "\<exists>s. buildClusterInfo scenario_playground scenario_doc (newClusterInfo scenario_playground) = Inr s
       \<and> Version s = ''8.0.30'' \<and> Instances s = 1 \<and> ServerId s = 1 \<and> Secret s = ''s1''
       \<and> StartTime s = ''t0'' \<and> Status s = ''Running'' \<and> OnlineInstances s = 1
       \<and> Topology s = ''Standalone''"
  using buildClusterInfo_wellformed [of scenario_doc
      "[(''createTime'', VString ''t0''),
        (''cluster'', VMap [(''status'', VString ''Running''), (''onlineInstances'', VInt64 1)])]"
      "[(''status'', VString ''Running''), (''onlineInstances'', VInt64 1)]"
      "[(''version'', VString ''8.0.30''), (''instances'', VInt64 1),
        (''baseServerId'', VInt64 1), (''secretName'', VString ''s1'')]"
      "''8.0.30''" 1 1 "''s1''" "''t0''" "''Running''" 1
      scenario_playground "newClusterInfo scenario_playground"]
  by (auto simp add: scenario_doc_def mapindex_def)

text \<open>
  Claim C2, as the code has it. When one of the three maps or one of the seven fields is
  absent or of another type, \<open>buildClusterInfo\<close> does not return: it panics with the
  runtime error of the type assertion that failed, which tells the type found and the
  type asserted (a map, a string or an int64). No summary is produced.
\<close>

theorem buildClusterInfo_malformed_panics:
  assumes "\<not> (\<exists>status cluster spec version instances serverId secret startTime clusterStatus online.
               mapindex (Object obj) ''status'' = VMap status
             \<and> mapindex status ''cluster'' = VMap cluster
             \<and> mapindex (Object obj) ''spec'' = VMap spec
             \<and> mapindex spec ''version'' = VString version
             \<and> mapindex spec ''instances'' = VInt64 instances
             \<and> mapindex spec ''baseServerId'' = VInt64 serverId
             \<and> mapindex spec ''secretName'' = VString secret
             \<and> mapindex status ''createTime'' = VString startTime
             \<and> mapindex cluster ''status'' = VString clusterStatus
             \<and> mapindex cluster ''onlineInstances'' = VInt64 online)"
  shows "\<exists>found asserted. buildClusterInfo pg obj info = Inl (TypeAssertionError found asserted)
           \<and> asserted \<in> {''map[string]interface {}'', ''string'', ''int64''}"
  using assms
  unfolding buildClusterInfo_def Let_def orPanic_def assertMap_def assertString_def
    assertInt64_def
  by (auto split: val.splits)

theorem buildClusterInfo_malformed_panics_witness:
  "\<exists>found asserted.
      buildClusterInfo scenario_playground doc_no_version (newClusterInfo scenario_playground)
        = Inl (TypeAssertionError found asserted)
    \<and> asserted \<in> {''map[string]interface {}'', ''string'', ''int64''}"
  using buildClusterInfo_malformed_panics
    [of doc_no_version scenario_playground "newClusterInfo scenario_playground"]
  by (auto simp add: doc_no_version_def mapindex_def)

text \<open>
  Claim C2, as stated, fails: the failure is a panic that names no field path. A document
  without \<open>spec.version\<close> and a document without \<open>spec.secretName\<close> end in the same
  panic value, "interface {} is nil, not string".
\<close>

theorem missing_field_panic_names_no_path:
  "buildClusterInfo scenario_playground doc_no_version (newClusterInfo scenario_playground)
     = Inl (TypeAssertionError None ''string'')
   \<and> buildClusterInfo scenario_playground doc_no_secretName (newClusterInfo scenario_playground)
     = Inl (TypeAssertionError None ''string'')"
  by (simp add: eval_defs doc_no_version_def doc_no_secretName_def)

text \<open>
  Claim C6. When the projection succeeds on a summary whose labels are still empty (as
  the literal of \<open>Run\<close> is), the labels of the summary are the concatenation of
  "key:value " over the pairs of the label set, in the order of iteration.
\<close>

theorem buildClusterInfo_labels:
  assumes "buildClusterInfo pg obj info = Inr s" and "Labels info = ''''"
  shows "Labels s = concat (map (\<lambda>(k, v). k @ '':'' @ v @ '' '') (GetLabels obj))"
  using buildClusterInfo_InrD(1) [OF assms(1)] assms(2) by (simp add: rangeLabels_concat)

text \<open>The label set \<open>{env: prod}\<close> renders as "env:prod ", the empty one as "".\<close>

theorem buildClusterInfo_labels_witness:
  "(\<exists>s. buildClusterInfo scenario_playground doc_env_prod
           ((newClusterInfo scenario_playground)\<lparr>DBNamespace := ''default'', DBCluster := ''c1''\<rparr>)
           = Inr s
        \<and> Labels s = ''env:prod '')
   \<and> (\<exists>s. buildClusterInfo scenario_playground doc_empty_labels
           ((newClusterInfo scenario_playground)\<lparr>DBNamespace := ''default'', DBCluster := ''c2''\<rparr>)
           = Inr s
        \<and> Labels s = '''')"
proof -
  let ?i1 = "(newClusterInfo scenario_playground)\<lparr>DBNamespace := ''default'', DBCluster := ''c1''\<rparr>"
  let ?i2 = "(newClusterInfo scenario_playground)\<lparr>DBNamespace := ''default'', DBCluster := ''c2''\<rparr>"
  have zero: "Labels ?i1 = ''''" "Labels ?i2 = ''''"
    by (simp_all add: newClusterInfo_def)
  obtain s1 where s1: "buildClusterInfo scenario_playground doc_env_prod ?i1 = Inr s1"
    using labelled_docs_project(1) by blast
  obtain s2 where s2: "buildClusterInfo scenario_playground doc_empty_labels ?i2 = Inr s2"
    using labelled_docs_project(2) by blast
  have "Labels s1 = ''env:prod ''"
    using buildClusterInfo_labels [OF s1 zero(1)] by (simp add: scenario_labels)
  moreover have "Labels s2 = ''''"
    using buildClusterInfo_labels [OF s2 zero(2)] by (simp add: scenario_labels)
  ultimately show ?thesis using s1 s2 by simp
qed

text \<open>
  Claim C7. Whatever the document, a summary that \<open>Run\<close> gets from \<open>buildClusterInfo\<close>
  has the root user, the port and the engine of the playground constants and the storage
  size 2; so two documents give the same four values.
\<close>

theorem buildClusterInfo_defaults:
  assumes "buildClusterInfo pg obj
             ((newClusterInfo pg)\<lparr>DBNamespace := ns, DBCluster := name\<rparr>) = Inr s"
      and "buildClusterInfo pg obj'
             ((newClusterInfo pg)\<lparr>DBNamespace := ns', DBCluster := name'\<rparr>) = Inr s'"
  shows "RootUser s = DefaultRootUser pg \<and> DBPort s = DefaultPort pg
       \<and> Engine s = DefaultEngine pg \<and> Storage s = 2
       \<and> RootUser s' = RootUser s \<and> DBPort s' = DBPort s
       \<and> Engine s' = Engine s \<and> Storage s' = Storage s"
  using buildClusterInfo_InrD(4-7) [OF assms(1)] buildClusterInfo_InrD(4-7) [OF assms(2)]
  by (simp add: newClusterInfo_def)

theorem buildClusterInfo_defaults_witness:
  "\<exists>s s'. buildClusterInfo scenario_playground scenario_doc
             ((newClusterInfo scenario_playground)\<lparr>DBNamespace := ''default'', DBCluster := ''a''\<rparr>)
             = Inr s
         \<and> buildClusterInfo scenario_playground doc_env_prod
             ((newClusterInfo scenario_playground)\<lparr>DBNamespace := ''prod'', DBCluster := ''c1''\<rparr>)
             = Inr s'
         \<and> RootUser s = ''root'' \<and> DBPort s = ''3306'' \<and> Engine s = ''wesql'' \<and> Storage s = 2
         \<and> RootUser s' = RootUser s \<and> DBPort s' = DBPort s
         \<and> Engine s' = Engine s \<and> Storage s' = Storage s"
proof -
  let ?s = "scenario_summary ''default'' ''a''"
  have s: "buildClusterInfo scenario_playground scenario_doc
      ((newClusterInfo scenario_playground)\<lparr>DBNamespace := ''default'', DBCluster := ''a''\<rparr>) = Inr ?s"
    by (rule scenario_doc_summary)
  obtain s' where s': "buildClusterInfo scenario_playground doc_env_prod
      ((newClusterInfo scenario_playground)\<lparr>DBNamespace := ''prod'', DBCluster := ''c1''\<rparr>) = Inr s'"
    using labelled_docs_project(1) by blast
  have "RootUser ?s = DefaultRootUser scenario_playground \<and> DBPort ?s = DefaultPort scenario_playground
       \<and> Engine ?s = DefaultEngine scenario_playground \<and> Storage ?s = 2
       \<and> RootUser s' = RootUser ?s \<and> DBPort s' = DBPort ?s
       \<and> Engine s' = Engine ?s \<and> Storage s' = Storage ?s"
    using buildClusterInfo_defaults [OF s s'] .
  then show ?thesis
    using s s' by (intro exI [of _ ?s] exI [of _ s']) (simp add: scenario_playground_def)
qed

section \<open>Properties of Run\<close>

lemma Run_loop_append:
  "Run_loop pg opts err (xs @ ys) allErrs errs tr =
     (case Run_loop pg opts err xs allErrs errs tr of
        Continue allErrs' errs' tr' \<Rightarrow> Run_loop pg opts err ys allErrs' errs' tr'
      | Exit out tr' \<Rightarrow> Exit out tr')"
  by (induction xs arbitrary: allErrs errs tr) (auto split: step.splits)

lemma Run_body_ok:
  assumes "client opts = Some c"
    and "c (Resource (info_Mapping info)) (Namespace opts) (info_Name info) = Inr obj"
    and "buildClusterInfo pg obj ((newClusterInfo pg)\<lparr>DBNamespace := info_Namespace info,
                                                       DBCluster := info_Name info\<rparr>) = Inr s"
  shows "Run_body pg opts None info allErrs errs tr =
           Continue allErrs errs
             (tr @ [Get (Resource (info_Mapping info)) (Namespace opts) (info_Name info),
                    PrintClusterInfo s])"
  using assms by (simp add: Run_body_def Let_def)

lemma Run_body_fetch_fails:
  assumes "client opts = Some c"
    and "c (Resource (info_Mapping info)) (Namespace opts) (info_Name info) = Inl e"
  shows "Run_body pg opts None info allErrs errs tr =
           Exit (Return (Some e))
             (tr @ [Get (Resource (info_Mapping info)) (Namespace opts) (info_Name info)])"
  using assms by (simp add: Run_body_def Let_def)

text \<open>A batch in which every fetch and every projection succeeds: a fetch and a summary
  per identity, in order, and the loop completes with its errors as they were.\<close>

lemma Run_loop_all_ok:
  assumes "client opts = Some c"
    and "\<forall>i \<in> set pre. \<exists>obj s.
           c (Resource (info_Mapping i)) (Namespace opts) (info_Name i) = Inr obj
         \<and> buildClusterInfo pg obj ((newClusterInfo pg)\<lparr>DBNamespace := info_Namespace i,
                                                          DBCluster := info_Name i\<rparr>) = Inr s"
  shows "\<exists>sums. length sums = length pre
           \<and> Run_loop pg opts None pre allErrs errs tr =
               Continue allErrs errs
                 (tr @ concat (map (\<lambda>(i, s). [Get (Resource (info_Mapping i)) (Namespace opts)
                                                  (info_Name i),
                                                PrintClusterInfo s]) (zip pre sums)))"
  using assms(2)
proof (induction pre arbitrary: tr)
  case Nil
  then show ?case by simp
next
  case (Cons i pre)
  from Cons.prems obtain obj s where
    f: "c (Resource (info_Mapping i)) (Namespace opts) (info_Name i) = Inr obj" and
    b: "buildClusterInfo pg obj ((newClusterInfo pg)\<lparr>DBNamespace := info_Namespace i,
                                                       DBCluster := info_Name i\<rparr>) = Inr s"
    by auto
  let ?tr = "tr @ [Get (Resource (info_Mapping i)) (Namespace opts) (info_Name i),
                   PrintClusterInfo s]"
  from Cons.IH [of ?tr] Cons.prems obtain sums where
    l: "length sums = length pre" and
    r: "Run_loop pg opts None pre allErrs errs ?tr =
          Continue allErrs errs
            (?tr @ concat (map (\<lambda>(i, s). [Get (Resource (info_Mapping i)) (Namespace opts)
                                              (info_Name i),
                                            PrintClusterInfo s]) (zip pre sums)))"
    by auto
  have "length (s # sums) = length (i # pre)" using l by simp
  moreover have "Run_loop pg opts None (i # pre) allErrs errs tr =
      Continue allErrs errs
        (tr @ concat (map (\<lambda>(i, s). [Get (Resource (info_Mapping i)) (Namespace opts)
                                         (info_Name i),
                                       PrintClusterInfo s]) (zip (i # pre) (s # sums))))"
    using Run_body_ok [OF assms(1) f b] r by simp
  ultimately show ?case by blast
qed

text \<open>
  Claim C3. When the builder locates \<open>pre @ info # post\<close>, every identity of \<open>pre\<close>
  is fetched and projected, and the fetch of \<open>info\<close> fails with \<open>e\<close>, \<open>Run\<close> returns
  \<open>e\<close> itself (no aggregate), and its trace is a fetch and a summary for each identity of
  \<open>pre\<close>, then the failed fetch, and nothing more: no identity of \<open>post\<close> is fetched.
\<close>

theorem Run_fetch_failure_aborts:
  assumes "NewBuilder opts = Some newBuilder"
    and "Err (newBuilder (builderParams opts)) = None"
    and "Infos (newBuilder (builderParams opts)) = (pre @ info # post, None)"
    and "client opts = Some c"
    and "\<forall>i \<in> set pre. \<exists>obj s.
           c (Resource (info_Mapping i)) (Namespace opts) (info_Name i) = Inr obj
         \<and> buildClusterInfo pg obj ((newClusterInfo pg)\<lparr>DBNamespace := info_Namespace i,
                                                          DBCluster := info_Name i\<rparr>) = Inr s"
    and "c (Resource (info_Mapping info)) (Namespace opts) (info_Name info) = Inl e"
  shows "\<exists>sums. length sums = length pre
           \<and> Run pg opts =
               (concat (map (\<lambda>(i, s). [Get (Resource (info_Mapping i)) (Namespace opts)
                                           (info_Name i),
                                        PrintClusterInfo s]) (zip pre sums))
                  @ [Get (Resource (info_Mapping info)) (Namespace opts) (info_Name info)],
                Return (Some e))"
proof -
  from Run_loop_all_ok [OF assms(4) assms(5), of "[]" "{}" "[]"] obtain sums where
    l: "length sums = length pre" and
    r: "Run_loop pg opts None pre [] {} [] =
          Continue [] {}
            (concat (map (\<lambda>(i, s). [Get (Resource (info_Mapping i)) (Namespace opts)
                                        (info_Name i),
                                     PrintClusterInfo s]) (zip pre sums)))"
    by auto
  have "Run_loop pg opts None (pre @ info # post) [] {} [] =
          Exit (Return (Some e))
            (concat (map (\<lambda>(i, s). [Get (Resource (info_Mapping i)) (Namespace opts)
                                        (info_Name i),
                                     PrintClusterInfo s]) (zip pre sums))
              @ [Get (Resource (info_Mapping info)) (Namespace opts) (info_Name info)])"
    by (simp add: Run_loop_append r Run_body_fetch_fails [OF assms(4) assms(6)])
  then have "Run pg opts =
               (concat (map (\<lambda>(i, s). [Get (Resource (info_Mapping i)) (Namespace opts)
                                           (info_Name i),
                                        PrintClusterInfo s]) (zip pre sums))
                  @ [Get (Resource (info_Mapping info)) (Namespace opts) (info_Name info)],
                Return (Some e))"
    by (simp add: Run_def assms(1-3))
  with l show ?thesis by blast
qed

text \<open>The batch \<open>a\<close>, \<open>b\<close>, \<open>c\<close> where the fetch of \<open>b\<close> fails: \<open>a\<close> is fetched
  and printed, \<open>b\<close> is fetched, the run returns the error of that fetch.\<close>

theorem Run_fetch_failure_aborts_witness:
  "\<exists>s. Run scenario_playground
          (options_of [identity ''default'' ''a'', identity ''default'' ''b'',
                       identity ''default'' ''c''] client_b_fails)
       = ([Get (Resource dbclusters) ''default'' ''a'', PrintClusterInfo s,
           Get (Resource dbclusters) ''default'' ''b''],
          Return (Some (New ''dbclusters b not found'')))"
proof -
  let ?a = "identity ''default'' ''a''"
  let ?b = "identity ''default'' ''b''"
  let ?c = "identity ''default'' ''c''"
  let ?opts = "options_of [?a, ?b, ?c] client_b_fails"
  have "\<exists>sums. length sums = length [?a]
           \<and> Run scenario_playground ?opts =
               (concat (map (\<lambda>(i, s). [Get (Resource (info_Mapping i)) (Namespace ?opts)
                                           (info_Name i),
                                        PrintClusterInfo s]) (zip [?a] sums))
                  @ [Get (Resource (info_Mapping ?b)) (Namespace ?opts) (info_Name ?b)],
                Return (Some (New ''dbclusters b not found'')))"
  proof (rule Run_fetch_failure_aborts [where post = "[?c]" and c = client_b_fails])
    show "NewBuilder ?opts = Some (\<lambda>params. \<lparr>Err = None, Infos = ([?a, ?b, ?c], None)\<rparr>)"
      by (simp add: options_of_def)
    show "client ?opts = Some client_b_fails"
      by (simp add: options_of_def)
    show "\<forall>i \<in> set [?a]. \<exists>obj s.
           client_b_fails (Resource (info_Mapping i)) (Namespace ?opts) (info_Name i) = Inr obj
         \<and> buildClusterInfo scenario_playground obj
              ((newClusterInfo scenario_playground)\<lparr>DBNamespace := info_Namespace i,
                                                      DBCluster := info_Name i\<rparr>) = Inr s"
      using scenario_doc_summary by (simp add: client_b_fails_def identity_def)
    show "client_b_fails (Resource (info_Mapping ?b)) (Namespace ?opts) (info_Name ?b)
            = Inl (New ''dbclusters b not found'')"
      by (simp add: client_b_fails_def identity_def)
  qed simp_all
  then obtain sums where l: "length sums = Suc 0" and
    r: "Run scenario_playground ?opts =
               (concat (map (\<lambda>(i, s). [Get (Resource (info_Mapping i)) (Namespace ?opts)
                                           (info_Name i),
                                        PrintClusterInfo s]) (zip [?a] sums))
                  @ [Get (Resource (info_Mapping ?b)) (Namespace ?opts) (info_Name ?b)],
                Return (Some (New ''dbclusters b not found'')))"
    by auto
  from l obtain s where "sums = [s]" by (cases sums) auto
  with r show ?thesis by (simp add: identity_def options_of_def)
qed

text \<open>
  Claim C5. When the builder locates no identity and reports no error, \<open>Run\<close> writes one
  line to \<open>ErrOut\<close>, "No resources found" under all-namespaces and "No resources found
  in NAMESPACE namespace." otherwise, does nothing else, and returns nil.
\<close>

theorem Run_no_resources_found:
  assumes "NewBuilder opts = Some newBuilder"
    and "Err (newBuilder (builderParams opts)) = None"
    and "Infos (newBuilder (builderParams opts)) = ([], None)"
  shows "Run pg opts =
           ([ErrOut (if AllNamespaces opts then ''No resources found'' @ [CHR 0x0A]
                     else ''No resources found in '' @ Namespace opts
                          @ '' namespace.'' @ [CHR 0x0A])],
            Return None)"
  using assms by (simp add: Run_def NewAggregate_def)

theorem Run_no_resources_found_witness:
  "Run scenario_playground (options_of [] client_any)
     = ([ErrOut (''No resources found in default namespace.'' @ [CHR 0x0A])], Return None)
   \<and> Run scenario_playground ((options_of [] client_any)\<lparr>AllNamespaces := True\<rparr>)
     = ([ErrOut (''No resources found'' @ [CHR 0x0A])], Return None)"
  using Run_no_resources_found [of "options_of [] client_any"
          "\<lambda>params. \<lparr>Err = None, Infos = ([], None)\<rparr>" scenario_playground]
        Run_no_resources_found [of "(options_of [] client_any)\<lparr>AllNamespaces := True\<rparr>"
          "\<lambda>params. \<lparr>Err = None, Infos = ([], None)\<rparr>" scenario_playground]
  by (simp add: options_of_def)

text \<open>One iteration with a client in place: the fetch is made in the namespace of the
  command, and a summary, if one is printed, reports the namespace of the identity.\<close>

lemma Run_body_fetch_shape:
  assumes "client opts = Some c"
  shows "case Run_body pg opts None info allErrs errs tr of
           Continue allErrs' errs' tr' \<Rightarrow>
             allErrs' = allErrs \<and> errs' = errs \<and>
             (\<exists>s. tr' = tr @ [Get (Resource (info_Mapping info)) (Namespace opts) (info_Name info),
                              PrintClusterInfo s]
                 \<and> DBNamespace s = info_Namespace info)
         | Exit out tr' \<Rightarrow>
             tr' = tr @ [Get (Resource (info_Mapping info)) (Namespace opts) (info_Name info)]"
  using assms unfolding Run_body_def Let_def
  by (auto split: sum.splits dest: buildClusterInfo_InrD)

text \<open>The loop: \<open>k\<close> identities are fetched and printed, then the loop is over or the
  fetch or the projection of the next identity ends the run.\<close>

lemma Run_loop_fetch_shape:
  assumes "client opts = Some c"
  shows "\<exists>k sums. k \<le> length infos \<and> length sums = k
           \<and> (\<forall>(i, s) \<in> set (zip (take k infos) sums). DBNamespace s = info_Namespace i)
           \<and> (case Run_loop pg opts None infos allErrs errs tr of
                 Continue allErrs' errs' tr' \<Rightarrow>
                   k = length infos \<and> allErrs' = allErrs
                   \<and> tr' = tr @ concat (map (\<lambda>(i, s). [Get (Resource (info_Mapping i))
                                                         (Namespace opts) (info_Name i),
                                                      PrintClusterInfo s])
                                           (zip (take k infos) sums))
               | Exit out tr' \<Rightarrow>
                   k < length infos
                   \<and> tr' = tr @ concat (map (\<lambda>(i, s). [Get (Resource (info_Mapping i))
                                                         (Namespace opts) (info_Name i),
                                                      PrintClusterInfo s])
                                           (zip (take k infos) sums))
                          @ [Get (Resource (info_Mapping (infos ! k))) (Namespace opts)
                               (info_Name (infos ! k))])"
proof (induction infos arbitrary: tr)
  case Nil
  then show ?case by simp
next
  case (Cons i infos)
  show ?case
  proof (cases "Run_body pg opts None i allErrs errs tr")
    case (Continue a e t)
    with Run_body_fetch_shape [OF assms, where pg = pg and info = i and allErrs = allErrs
        and errs = errs and tr = tr]
    obtain s where a: "a = allErrs" "e = errs" and
      t: "t = tr @ [Get (Resource (info_Mapping i)) (Namespace opts) (info_Name i),
                    PrintClusterInfo s]" and
      n: "DBNamespace s = info_Namespace i"
      by auto
    from Cons.IH [of t] obtain k sums where
      k: "k \<le> length infos" "length sums = k" and
      ns: "\<forall>(i, s) \<in> set (zip (take k infos) sums). DBNamespace s = info_Namespace i" and
      r: "case Run_loop pg opts None infos allErrs errs t of
                 Continue allErrs' errs' tr' \<Rightarrow>
                   k = length infos \<and> allErrs' = allErrs
                   \<and> tr' = t @ concat (map (\<lambda>(i, s). [Get (Resource (info_Mapping i))
                                                        (Namespace opts) (info_Name i),
                                                     PrintClusterInfo s])
                                          (zip (take k infos) sums))
               | Exit out tr' \<Rightarrow>
                   k < length infos
                   \<and> tr' = t @ concat (map (\<lambda>(i, s). [Get (Resource (info_Mapping i))
                                                        (Namespace opts) (info_Name i),
                                                     PrintClusterInfo s])
                                          (zip (take k infos) sums))
                          @ [Get (Resource (info_Mapping (infos ! k))) (Namespace opts)
                               (info_Name (infos ! k))]"
      by blast
    show ?thesis
      apply (rule exI [of _ "Suc k"])
      apply (rule exI [of _ "s # sums"])
      using k ns r Continue a t n
      by (auto split: step.splits)
  next
    case (Exit out t)
    with Run_body_fetch_shape [OF assms, where pg = pg and info = i and allErrs = allErrs
        and errs = errs and tr = tr]
    have "t = tr @ [Get (Resource (info_Mapping i)) (Namespace opts) (info_Name i)]"
      by simp
    with Exit show ?thesis
      by (intro exI [of _ 0] exI [of _ "[]"]) simp
  qed
qed

text \<open>
  Claim C9. When the builder locates \<open>infos\<close> and a client is in place, the trace of
  \<open>Run\<close> is, for the first \<open>k\<close> identities in order, a fetch of the name of the
  identity in the namespace of the command (\<open>Namespace opts\<close>, whatever the namespace of
  the identity is) and a summary that reports the namespace of the identity; then
  either all identities are done (and only the line for an empty batch may follow), or
  the run ends on the fetch of identity \<open>k\<close>, made in the namespace of the command too.
\<close>

theorem Run_fetches_command_namespace:
  assumes "NewBuilder opts = Some newBuilder"
    and "Err (newBuilder (builderParams opts)) = None"
    and "Infos (newBuilder (builderParams opts)) = (infos, None)"
    and "client opts = Some c"
  shows "\<exists>k sums rest. k \<le> length infos \<and> length sums = k
           \<and> fst (Run pg opts) =
               concat (map (\<lambda>(i, s). [Get (Resource (info_Mapping i)) (Namespace opts)
                                          (info_Name i),
                                       PrintClusterInfo s]) (zip (take k infos) sums)) @ rest
           \<and> (\<forall>(i, s) \<in> set (zip (take k infos) sums). DBNamespace s = info_Namespace i)
           \<and> (if k = length infos
               then rest = (if infos = [] then
                              [ErrOut (if AllNamespaces opts then ''No resources found'' @ [CHR 0x0A]
                                       else ''No resources found in '' @ Namespace opts
                                            @ '' namespace.'' @ [CHR 0x0A])]
                            else [])
               else rest = [Get (Resource (info_Mapping (infos ! k))) (Namespace opts)
                              (info_Name (infos ! k))])"
proof -
  from Run_loop_fetch_shape [OF assms(4), where infos = infos and pg = pg
      and allErrs = "[]" and errs = "{}" and tr = "[]"]
  obtain k sums where
    k: "k \<le> length infos" "length sums = k" and
    ns: "\<forall>(i, s) \<in> set (zip (take k infos) sums). DBNamespace s = info_Namespace i" and
    r: "case Run_loop pg opts None infos [] {} [] of
                 Continue allErrs' errs' tr' \<Rightarrow>
                   k = length infos \<and> allErrs' = []
                   \<and> tr' = [] @ concat (map (\<lambda>(i, s). [Get (Resource (info_Mapping i))
                                                         (Namespace opts) (info_Name i),
                                                      PrintClusterInfo s])
                                           (zip (take k infos) sums))
               | Exit out tr' \<Rightarrow>
                   k < length infos
                   \<and> tr' = [] @ concat (map (\<lambda>(i, s). [Get (Resource (info_Mapping i))
                                                         (Namespace opts) (info_Name i),
                                                      PrintClusterInfo s])
                                           (zip (take k infos) sums))
                          @ [Get (Resource (info_Mapping (infos ! k))) (Namespace opts)
                               (info_Name (infos ! k))]"
    by blast
  show ?thesis
  proof (cases "Run_loop pg opts None infos [] {} []")
    case (Continue a e t)
    with r k ns show ?thesis
      by (intro exI [of _ k] exI [of _ sums]) (simp add: Run_def assms(1-3) NewAggregate_def)
  next
    case (Exit out t)
    with r k ns show ?thesis
      by (intro exI [of _ k] exI [of _ sums]) (simp add: Run_def assms(1-3))
  qed
qed

text \<open>Under all-namespaces, the run over one identity of namespace \<open>prod\<close> fetches it
  in \<open>default\<close>, the namespace of the command, and reports it in \<open>prod\<close>.\<close>

theorem Run_fetches_command_namespace_witness:
  "\<exists>s. fst (Run scenario_playground options_all_namespaces)
          = [Get (Resource dbclusters) ''default'' ''a'', PrintClusterInfo s]
       \<and> DBNamespace s = ''prod''
       \<and> info_Namespace (identity ''prod'' ''a'') = ''prod''
       \<and> Namespace options_all_namespaces = ''default''"
proof -
  let ?infos = "[identity ''prod'' ''a'']"
  let ?opts = "options_all_namespaces"
  have b: "NewBuilder ?opts = Some (\<lambda>params. \<lparr>Err = None, Infos = (?infos, None)\<rparr>)"
    and c: "client ?opts = Some client_any"
    by (simp_all add: options_all_namespaces_def options_of_def)
  have inst: "\<exists>k sums rest. k \<le> length ?infos \<and> length sums = k
           \<and> fst (Run scenario_playground ?opts) =
               concat (map (\<lambda>(i, s). [Get (Resource (info_Mapping i)) (Namespace ?opts)
                                          (info_Name i),
                                       PrintClusterInfo s]) (zip (take k ?infos) sums)) @ rest
           \<and> (\<forall>(i, s) \<in> set (zip (take k ?infos) sums). DBNamespace s = info_Namespace i)
           \<and> (if k = length ?infos
               then rest = (if ?infos = [] then
                              [ErrOut (if AllNamespaces ?opts then ''No resources found'' @ [CHR 0x0A]
                                       else ''No resources found in '' @ Namespace ?opts
                                            @ '' namespace.'' @ [CHR 0x0A])]
                            else [])
               else rest = [Get (Resource (info_Mapping (?infos ! k))) (Namespace ?opts)
                              (info_Name (?infos ! k))])"
    by (rule Run_fetches_command_namespace [OF b _ _ c]) simp_all
  have run: "Run scenario_playground ?opts
          = ([Get (Resource dbclusters) ''default'' ''a'',
              PrintClusterInfo (scenario_summary ''prod'' ''a'')], Return None)"
    by (simp add: Run_def Run_body_def Let_def options_all_namespaces_def options_of_def
        identity_def client_any_def scenario_doc_summary NewAggregate_def)
  from inst run show ?thesis
    by (simp add: scenario_summary_def identity_def options_all_namespaces_def options_of_def)
qed

subsection \<open>The errors that the loop records\<close>


text \<open>\<open>Run\<close> starts the loop with \<open>err\<close> nil, and then no iteration records anything.\<close>

lemma Run_body_None_keeps_errors:
  "Run_body pg opts None info allErrs errs tr = Continue allErrs' errs' tr'
     \<Longrightarrow> allErrs' = allErrs \<and> errs' = errs"
  unfolding Run_body_def Let_def by (auto split: option.splits sum.splits)

lemma Run_loop_None_keeps_errors:
  "Run_loop pg opts None infos allErrs errs tr = Continue allErrs' errs' tr'
     \<Longrightarrow> allErrs' = allErrs \<and> errs' = errs"
proof (induction infos arbitrary: tr)
  case Nil
  then show ?case by simp
next
  case (Cons i infos)
  then show ?case
    by (auto split: step.splits dest: Run_body_None_keeps_errors)
qed

lemma Run_completed_returns_nil:
  assumes "NewBuilder opts = Some newBuilder"
    and "Err (newBuilder (builderParams opts)) = None"
    and "Infos (newBuilder (builderParams opts)) = (infos, None)"
    and "Run_loop pg opts None infos [] {} [] = Continue allErrs errs tr"
  shows "snd (Run pg opts) = Return None"
  using assms Run_loop_None_keeps_errors [OF assms(4)]
  by (simp add: Run_def NewAggregate_def)








section \<open>Properties of Complete\<close>

text \<open>
  Claim C8. With no argument, \<open>Complete\<close> returns the error "You must specify the
  database cluster name to describe." at once: it has made no call to the configuration
  or to the client library, and has written nothing to the options.
\<close>

theorem Complete_no_args:
  "Complete pkgs f [] opts =
     ([], opts, Some (New ''You must specify the database cluster name to describe.''))"
  by (simp add: Complete_def)

theorem Complete_no_args_witness:
  "Complete scenario_packages factory_without_config [] empty_options =
     ([], empty_options, Some (New ''You must specify the database cluster name to describe.''))"
  using Complete_no_args [of scenario_packages factory_without_config empty_options] .

text \<open>
  Claim C10. With an argument and a namespace, when \<open>ToRESTConfig\<close> fails, \<open>Complete\<close>
  returns nil: the error is dropped, \<open>NewForConfig\<close> is not called, and the client and
  the builder of the options stay as they were.
\<close>

theorem Complete_swallows_config_error:
  assumes "args \<noteq> []"
    and "ToRawKubeConfigLoader_Namespace f = (ns, enforce, None)"
    and "ToRESTConfig f = Inl e"
  shows "\<exists>opts'. Complete pkgs f args opts = ([CallNamespace, CallToRESTConfig], opts', None)
           \<and> client opts' = client opts \<and> NewBuilder opts' = NewBuilder opts"
  using assms by (simp add: Complete_def Let_def)

theorem Complete_swallows_config_error_witness:
  "\<exists>opts'. Complete scenario_packages factory_without_config [''mycluster''] empty_options
              = ([CallNamespace, CallToRESTConfig], opts', None)
           \<and> client opts' = None \<and> NewBuilder opts' = None"
  using Complete_swallows_config_error [of "[''mycluster'']" factory_without_config
      "''default''" False "New ''invalid configuration: no configuration has been provided''"
      scenario_packages empty_options]
  by (simp add: factory_without_config_def empty_options_def)

end
